theory Spec2Isabelle
  imports Complex_Main "HOL-Library.Product_Order"
begin

section \<open>Errors\<close>

text \<open>
  The exceptions raised by the two source files, each with its message.
  \<open>AttributeError\<close> is what Python raises when an object has no method of the name
  called.  \<open>SubstrateError\<close> stands for an exception that is raised inside an external
  collaborator (the arithmetic substrate) and not by a \<open>raise\<close> of the source itself.
\<close>

datatype error =
    ValueError string
  | NotImplementedError string
  | AttributeError string
  | SubstrateError

section \<open>The category of Lie algebras (sage/categories/lie_algebras.py)\<close>

subsection \<open>Data model\<close>

text \<open>
  \<open>lie_algebra_generators()\<close> returns a family.  The only thing \<open>is_abelian\<close> asks of
  it is whether it lies in \<open>FiniteEnumeratedSets()\<close>, in which case it is iterated.
\<close>

datatype 'a family =
    FiniteEnumerated "'a list"
  | OtherFamily

text \<open>
  A parent in the category.  Elements are values of an abelian group \<open>'a\<close>
  (\<open>self.zero()\<close> is \<open>0\<close>, \<open>self.sum\<close> adds with \<open>+\<close>).
  \<^item> \<open>nilpotent_step\<close> is \<open>Some s\<close> when the parent lies in \<open>LieAlgebras.Nilpotent\<close>,
    with \<open>step() = s\<close>, and \<open>None\<close> when it does not;
  \<^item> \<open>lie_algebra_generators\<close> is the family returned by the method of that name;
  \<^item> \<open>element_constructor\<close> is the call \<open>self(x)\<close>, which coerces a plain object of
    type \<open>'x\<close> into an element or fails;
  \<^item> \<open>element_bracket\<close> is the element method \<open>_bracket_\<close>.
\<close>

record ('a, 'x) lie_algebra =
  nilpotent_step :: "nat option"
  lie_algebra_generators :: "'a family"
  element_constructor :: "'x \<Rightarrow> error + 'a"
  element_bracket :: "'a \<Rightarrow> 'a \<Rightarrow> 'a"

definition in_Nilpotent :: "('a, 'x, 'm) lie_algebra_scheme \<Rightarrow> bool" where
  "in_Nilpotent L \<longleftrightarrow> nilpotent_step L \<noteq> None"

subsection \<open>\<open>is_abelian\<close> and \<open>is_commutative\<close>\<close>

text \<open>
  \<^verbatim>\<open>
  G = self.lie_algebra_generators()
  if G not in FiniteEnumeratedSets():
      raise NotImplementedError("infinite number of generators")
  zero = self.zero()
  return all(x._bracket_(y) == zero for x in G for y in G)
  \<close>
\<close>

definition is_abelian :: "('a::zero, 'x, 'm) lie_algebra_scheme \<Rightarrow> error + bool" where
  "is_abelian L =
     (case lie_algebra_generators L of
        OtherFamily \<Rightarrow> Inl (NotImplementedError ''infinite number of generators'')
      | FiniteEnumerated G \<Rightarrow>
          Inr (list_all (\<lambda>x. list_all (\<lambda>y. element_bracket L x y = 0) G) G))"

text \<open>\<^verbatim>\<open>return self.is_abelian()\<close>\<close>

definition is_commutative :: "('a::zero, 'x, 'm) lie_algebra_scheme \<Rightarrow> error + bool" where
  "is_commutative L = is_abelian L"

subsection \<open>\<open>bracket\<close>\<close>

text \<open>
  An operand of \<open>bracket\<close> either passes the test \<open>x in LieAlgebras\<close> (it is itself a
  Lie-algebra-like parent, of type \<open>'l\<close>) or it does not (a plain object, of type \<open>'x\<close>).
\<close>

datatype ('l, 'x) operand =
    LieAlgebraLike 'l
  | Plain 'x

text \<open>
  The methods \<open>bracket\<close> calls on a Lie-algebra-like operand.  They belong to the
  operand's own class, so they are a table indexed by the receiver: \<open>product_space M l r\<close>
  is \<open>l.product_space(r)\<close> and \<open>ideal M l x\<close> is \<open>l.ideal(x)\<close>.  Either may raise.
\<close>

record ('l, 'x, 'r) parent_methods =
  product_space :: "'l \<Rightarrow> 'l \<Rightarrow> error + 'r"
  ideal :: "'l \<Rightarrow> 'x \<Rightarrow> error + 'r"

text \<open>
  The \<open>ideal\<close> method this category itself supplies; a parent that does not override it
  inherits
  \<^verbatim>\<open>raise NotImplementedError("ideals not yet implemented: see #16824")\<close>
\<close>

definition ideal_default :: "'l \<Rightarrow> 'x \<Rightarrow> error + 'r" where
  "ideal_default l gens = Inl (NotImplementedError ''ideals not yet implemented: see #16824'')"

text \<open>\<open>bracket\<close> returns either a subspace object or an element of \<open>self\<close>.\<close>

datatype ('r, 'a) bracket_value =
    Subspace 'r
  | Element 'a

text \<open>
  \<^verbatim>\<open>
  if lhs in LieAlgebras:
      if rhs in LieAlgebras:
          return lhs.product_space(rhs)
      return lhs.ideal(rhs)
  elif rhs in LieAlgebras:
      return rhs.ideal(lhs)
  return self(lhs)._bracket_(self(rhs))
  \<close>
  In the last line \<open>self(lhs)\<close> is evaluated before \<open>self(rhs)\<close>, so a failure to
  coerce \<open>lhs\<close> is the one reported.
\<close>

definition bracket ::
  "('a, 'x, 'm) lie_algebra_scheme \<Rightarrow> ('l, 'x, 'r, 'n) parent_methods_scheme \<Rightarrow>
   ('l, 'x) operand \<Rightarrow> ('l, 'x) operand \<Rightarrow> error + ('r, 'a) bracket_value" where
  "bracket self M lhs rhs =
     (case lhs of
        LieAlgebraLike l \<Rightarrow>
          (case rhs of
             LieAlgebraLike r \<Rightarrow> map_sum id Subspace (product_space M l r)
           | Plain y \<Rightarrow> map_sum id Subspace (ideal M l y))
      | Plain x \<Rightarrow>
          (case rhs of
             LieAlgebraLike r \<Rightarrow> map_sum id Subspace (ideal M r x)
           | Plain y \<Rightarrow>
               (case element_constructor self x of
                  Inl e \<Rightarrow> Inl e
                | Inr a \<Rightarrow>
                    (case element_constructor self y of
                       Inl e \<Rightarrow> Inl e
                     | Inr b \<Rightarrow> Inr (Element (element_bracket self a b))))))"

text \<open>
  The plain objects of the docstring's examples: an element of the parent, or a Python
  integer (\<open>L.bracket(x, 0)\<close>).
\<close>

datatype 'a plain =
    Elt 'a
  | PyInt int

subsection \<open>\<open>bch\<close>\<close>

text \<open>
  Modelled from the spec: \<open>bch_iterator\<close> of sage/algebras/lie_algebras/bch.py, which is
  not among the sources.  The spec describes it as a generator that, given two elements,
  lazily produces the terms of the series, restartable per call, infinite in general and
  finite for a nilpotent algebra.  \<open>bch_iterator B X Y\<close> is the fresh generator and
  \<open>gen_next B g\<close> is \<open>next(g)\<close>: \<open>Some (z, g')\<close> when it yields \<open>z\<close> and becomes \<open>g'\<close>,
  \<open>None\<close> when it raises \<open>StopIteration\<close>.
\<close>

record ('a, 's) bch_module =
  bch_iterator :: "'a \<Rightarrow> 'a \<Rightarrow> 's"
  gen_next :: "'s \<Rightarrow> ('a \<times> 's) option"

text \<open>
  \<open>self.sum(Z for Z in g)\<close>: the terms are added to \<open>self.zero()\<close> one by one until the
  generator stops.  On a generator that never stops the loop does not return (\<open>None\<close>).
  The result carries the generator as the loop left it.
\<close>

partial_function (option) sum_all ::
  "('s \<Rightarrow> ('a::monoid_add \<times> 's) option) \<Rightarrow> 's \<Rightarrow> 'a \<Rightarrow> ('a \<times> 's) option" where
  "sum_all nxt g acc =
     (case nxt g of
        None \<Rightarrow> Some (acc, g)
      | Some zg \<Rightarrow> sum_all nxt (snd zg) (acc + fst zg))"

text \<open>
  \<open>self.sum(next(g) for k in range(n))\<close>.  The sources are Python 2 (the sibling module
  uses the implicit relative import \<open>from linear_code import ...\<close>): a \<open>StopIteration\<close>
  raised by \<open>next(g)\<close> inside the generator expression ends that expression, and the sum
  is the sum of the terms obtained so far.
\<close>

fun sum_next ::
  "('s \<Rightarrow> ('a::monoid_add \<times> 's) option) \<Rightarrow> nat \<Rightarrow> 's \<Rightarrow> 'a \<Rightarrow> 'a \<times> 's" where
  "sum_next nxt 0 g acc = (acc, g)"
| "sum_next nxt (Suc k) g acc =
     (case nxt g of
        None \<Rightarrow> (acc, g)
      | Some zg \<Rightarrow> sum_next nxt k (snd zg) (acc + fst zg))"

text \<open>
  \<^verbatim>\<open>
  if self not in LieAlgebras.Nilpotent and prec is None:
      raise ValueError("the Lie algebra is not known to be nilpotent,"
                       " so you must specify the precision")
  from sage.algebras.lie_algebras.bch import bch_iterator
  if prec is None:
      return self.sum(Z for Z in bch_iterator(X, Y))
  bch = bch_iterator(X, Y)
  return self.sum(next(bch) for k in range(prec))
  \<close>
  \<open>bch_run\<close> is the method with its effect on the generator made explicit: it returns the
  element together with the generator as it was left.  \<open>range(prec)\<close> is empty for a
  negative \<open>prec\<close>.  The outer \<open>option\<close> is \<open>None\<close> when the call does not return.
\<close>

definition bch_run ::
  "('a::monoid_add, 'x, 'm) lie_algebra_scheme \<Rightarrow> ('a, 's, 'n) bch_module_scheme \<Rightarrow>
   'a \<Rightarrow> 'a \<Rightarrow> int option \<Rightarrow> (error + 'a \<times> 's) option" where
  "bch_run self B X Y prec =
     (if \<not> in_Nilpotent self \<and> prec = None then
        Some (Inl (ValueError
          ''the Lie algebra is not known to be nilpotent, so you must specify the precision''))
      else
        (case prec of
           None \<Rightarrow> map_option Inr (sum_all (gen_next B) (bch_iterator B X Y) 0)
         | Some p \<Rightarrow> Some (Inr (sum_next (gen_next B) (nat p) (bch_iterator B X Y) 0))))"

definition bch ::
  "('a::monoid_add, 'x, 'm) lie_algebra_scheme \<Rightarrow> ('a, 's, 'n) bch_module_scheme \<Rightarrow>
   'a \<Rightarrow> 'a \<Rightarrow> int option \<Rightarrow> (error + 'a) option" where
  "bch self B X Y prec = map_option (map_sum id fst) (bch_run self B X Y prec)"

text \<open>
  The term sequence of a generator, independently of the summation loops:
  \<open>produces nxt g ts g'\<close> holds when the generator \<open>g\<close> yields exactly the terms \<open>ts\<close>, in
  this order, and then stops, in state \<open>g'\<close>; \<open>first_terms nxt n g\<close> are the first \<open>n\<close>
  terms \<open>g\<close> yields (all of them when it yields fewer), and \<open>state_after nxt n g\<close> is the
  generator once these have been taken from it.
\<close>

inductive produces :: "('s \<Rightarrow> ('a \<times> 's) option) \<Rightarrow> 's \<Rightarrow> 'a list \<Rightarrow> 's \<Rightarrow> bool"
  for nxt :: "'s \<Rightarrow> ('a \<times> 's) option" where
  stop: "nxt g = None \<Longrightarrow> produces nxt g [] g"
| yield: "nxt g = Some (z, g') \<Longrightarrow> produces nxt g' zs g'' \<Longrightarrow> produces nxt g (z # zs) g''"

fun first_terms :: "('s \<Rightarrow> ('a \<times> 's) option) \<Rightarrow> nat \<Rightarrow> 's \<Rightarrow> 'a list" where
  "first_terms nxt 0 g = []"
| "first_terms nxt (Suc n) g =
     (case nxt g of None \<Rightarrow> [] | Some zg \<Rightarrow> fst zg # first_terms nxt n (snd zg))"

fun state_after :: "('s \<Rightarrow> ('a \<times> 's) option) \<Rightarrow> nat \<Rightarrow> 's \<Rightarrow> 's" where
  "state_after nxt 0 g = g"
| "state_after nxt (Suc n) g =
     (case nxt g of None \<Rightarrow> g | Some zg \<Rightarrow> state_after nxt n (snd zg))"

section \<open>Subfield subcodes (sage/coding/subfield_subcode.py)\<close>

subsection \<open>Data model\<close>

text \<open>
  A field as the module queries it.  \<open>FiniteField p k v\<close> is \<open>GF(p^k, v)\<close>: characteristic
  \<open>p\<close>, order \<open>p ^ k\<close>, generator named \<open>v\<close>.  \<open>InfiniteField\<close> is a field such as \<open>RR\<close>;
  the constructor rejects it before it asks for its order, so the value of \<open>order\<close> there
  is never used.
\<close>

datatype field =
    FiniteField nat nat string
  | InfiniteField

fun is_finite :: "field \<Rightarrow> bool" where
  "is_finite (FiniteField p k v) = True"
| "is_finite InfiniteField = False"

fun characteristic :: "field \<Rightarrow> nat" where
  "characteristic (FiniteField p k v) = p"
| "characteristic InfiniteField = 0"

fun order :: "field \<Rightarrow> nat" where
  "order (FiniteField p k v) = p ^ k"
| "order InfiniteField = 0"

text \<open>
  Modelled from the spec: the substrate's \<open>log(n, b)\<close>.  The spec writes the orders the
  module passes to it as powers of the characteristic and takes the exponent; for an \<open>n\<close>
  that is no power of \<open>b\<close> there is no such integer (\<open>None\<close>).
\<close>

function exact_log :: "nat \<Rightarrow> nat \<Rightarrow> nat option" where
  "exact_log b n =
     (if b < 2 \<or> n = 0 then None
      else if n = 1 then Some 0
      else if n mod b = 0 then map_option Suc (exact_log b (n div b))
      else None)"
  by pat_completeness auto
termination
  by (relation "measure snd") auto

declare exact_log.simps [simp del]

text \<open>
  What \<open>AbstractLinearCode.__init__(base_field, length, ...)\<close> stores, a linear code with
  its dimension, and a subfield subcode, which adds \<open>_original_code\<close>.
\<close>

record abstract_linear_code =
  base_field :: field
  length_code :: nat

record linear_code = abstract_linear_code +
  dimension :: nat

record subfield_subcode = abstract_linear_code +
  original_code :: linear_code

text \<open>The argument \<open>original_code\<close>, which need not be a linear code.\<close>

datatype code_argument =
    Code linear_code
  | NotACode

text \<open>The right operand of \<open>==\<close>, which need not be a subfield subcode.\<close>

datatype eq_argument =
    Subcode subfield_subcode
  | NotASubcode

subsection \<open>Operations\<close>

text \<open>
  \<^verbatim>\<open>
  if not isinstance(original_code, AbstractLinearCode):
      raise ValueError("original_code must be a linear code")
  if not subfield.is_finite():
      raise ValueError("subfield has to be a finite field")
  p = subfield.characteristic()
  s = log(subfield.order(), p)
  sm = log(original_code.base_field().order(), p)
  if not s.divides(sm):
      raise ValueError("subfield has to be a subfield of the base field of the original code")
  self._original_code = original_code
  super(SubfieldSubcode, self).__init__(subfield, original_code.length(), "ParityCheck", "Syndrome")
  \<close>
  When one of the logarithms is no integer the divisibility test of the substrate cannot
  be carried out; the model reports this as \<open>SubstrateError\<close>.  The argument \<open>embedding\<close>
  is not used by the source.
\<close>

definition SubfieldSubcode_init :: "code_argument \<Rightarrow> field \<Rightarrow> error + subfield_subcode" where
  "SubfieldSubcode_init original subfield =
     (case original of
        NotACode \<Rightarrow> Inl (ValueError ''original_code must be a linear code'')
      | Code C \<Rightarrow>
          if \<not> is_finite subfield then Inl (ValueError ''subfield has to be a finite field'')
          else
            (let p = characteristic subfield in
             case exact_log p (order subfield) of
               None \<Rightarrow> Inl SubstrateError
             | Some s \<Rightarrow>
                 (case exact_log p (order (base_field C)) of
                    None \<Rightarrow> Inl SubstrateError
                  | Some sm \<Rightarrow>
                      if \<not> s dvd sm then
                        Inl (ValueError
                          ''subfield has to be a subfield of the base field of the original code'')
                      else
                        Inr \<lparr> base_field = subfield, length_code = length_code C,
                              original_code = C \<rparr>)))"

text \<open>
  \<^verbatim>\<open>
  return isinstance(other, SubfieldSubcode) \
          and self.original_code() == other.original_code()\
          and self.base_field().order() == other.base_field().order()
  \<close>
  \<open>code_eq\<close> is the \<open>==\<close> of the original codes' class.
\<close>

definition eq_subcode ::
  "(linear_code \<Rightarrow> linear_code \<Rightarrow> bool) \<Rightarrow> subfield_subcode \<Rightarrow> eq_argument \<Rightarrow> bool" where
  "eq_subcode code_eq self other =
     (case other of
        NotASubcode \<Rightarrow> False
      | Subcode B \<Rightarrow>
          code_eq (original_code self) (original_code B)
          \<and> order (base_field self) = order (base_field B))"

text \<open>\<^verbatim>\<open>return self.original_code().dimension()\<close>\<close>

definition dimension_upper_bound :: "subfield_subcode \<Rightarrow> nat" where
  "dimension_upper_bound self = dimension (original_code self)"

text \<open>
  \<^verbatim>\<open>
  C = self.original_code()
  n = C.length()
  k = C.dimension()
  F = C.base_field()
  t = log(F.order() // self.base_field().order(), F.characteristic())
  return n - t*(n-k)
  \<close>
  The result is an integer when the logarithm is one (\<open>None\<close> otherwise).
\<close>

definition dimension_lower_bound :: "subfield_subcode \<Rightarrow> int option" where
  "dimension_lower_bound self =
     (let C = original_code self;
          n = length_code C;
          k = dimension C;
          F = base_field C
      in case exact_log (characteristic F) (order F div order (base_field self)) of
           None \<Rightarrow> None
         | Some t \<Rightarrow> Some (int n - int t * (int n - int k)))"

section \<open>Example objects\<close>

text \<open>
  The Heisenberg algebra of rank 1 over the rationals, on coordinates \<open>(p, q, z)\<close>:
  \<open>[p, q] = z\<close>, nilpotent of step 2.  Its element constructor accepts its own elements
  and the integer 0.
\<close>

definition heis_bracket :: "rat \<times> rat \<times> rat \<Rightarrow> rat \<times> rat \<times> rat \<Rightarrow> rat \<times> rat \<times> rat" where
  "heis_bracket x y =
     (case x of (a, b, c) \<Rightarrow> case y of (a', b', c') \<Rightarrow> (0, 0, a * b' - b * a'))"

fun coerce_plain :: "'a::zero plain \<Rightarrow> error + 'a" where
  "coerce_plain (Elt x) = Inr x"
| "coerce_plain (PyInt n) = (if n = 0 then Inr 0 else Inl SubstrateError)"

definition Heisenberg :: "(rat \<times> rat \<times> rat, (rat \<times> rat \<times> rat) plain) lie_algebra" where
  "Heisenberg =
     \<lparr> nilpotent_step = Some 2,
       lie_algebra_generators = FiniteEnumerated [(1, 0, 0), (0, 1, 0)],
       element_constructor = coerce_plain,
       element_bracket = heis_bracket \<rparr>"

text \<open>The abelian Lie algebra on two generators over the rationals.\<close>

definition Abelian2 :: "(rat \<times> rat, (rat \<times> rat) plain) lie_algebra" where
  "Abelian2 =
     \<lparr> nilpotent_step = Some 1,
       lie_algebra_generators = FiniteEnumerated [(1, 0), (0, 1)],
       element_constructor = coerce_plain,
       element_bracket = (\<lambda>x y. 0) \<rparr>"

text \<open>
  A parent whose generators are not known to be finitely many and that is not known to
  be nilpotent (pairs of rationals, \<open>[e1, e2] = e2\<close>).
\<close>

definition Affine :: "(rat \<times> rat, (rat \<times> rat) plain) lie_algebra" where
  "Affine =
     \<lparr> nilpotent_step = None,
       lie_algebra_generators = OtherFamily,
       element_constructor = coerce_plain,
       element_bracket = (\<lambda>x y. (0, fst x * snd y - snd x * fst y)) \<rparr>"

text \<open>
  The methods of a Lie-algebra-like operand that has only what this category supplies:
  the \<open>ideal\<close> above and no \<open>product_space\<close>.
\<close>

definition category_methods :: "(unit, 'x, unit) parent_methods" where
  "category_methods =
     \<lparr> product_space = (\<lambda>l r. Inl (AttributeError ''product_space'')),
       ideal = ideal_default \<rparr>"

text \<open>
  A generator over a list of terms, and the series of the Heisenberg algebra: the terms
  of depth 1, 2 and 3, the last of which vanishes there.
\<close>

fun list_next :: "'a list \<Rightarrow> ('a \<times> 'a list) option" where
  "list_next [] = None"
| "list_next (z # zs) = Some (z, zs)"

definition scale3 :: "rat \<Rightarrow> rat \<times> rat \<times> rat \<Rightarrow> rat \<times> rat \<times> rat" where
  "scale3 c x = (case x of (a, b, d) \<Rightarrow> (c * a, c * b, c * d))"

definition heis_bch :: "(rat \<times> rat \<times> rat, (rat \<times> rat \<times> rat) list) bch_module" where
  "heis_bch =
     \<lparr> bch_iterator = (\<lambda>X Y.
         [X + Y,
          scale3 (1 / 2) (heis_bracket X Y),
          scale3 (1 / 12) (heis_bracket X (heis_bracket X Y) + heis_bracket Y (heis_bracket Y X))]),
       gen_next = list_next \<rparr>"

text \<open>A generator that never stops: it counts, and yields its count in the second place.\<close>

definition counting_bch :: "(rat \<times> rat, nat) bch_module" where
  "counting_bch =
     \<lparr> bch_iterator = (\<lambda>X Y. 0),
       gen_next = (\<lambda>n. Some ((0, of_nat n), Suc n)) \<rparr>"

text \<open>
  The codes of the docstrings: a \<open>[7, 3]\<close> code over \<open>GF(16, 'aa')\<close>, and the subfields
  \<open>GF(4, 'a')\<close>, \<open>GF(4, 'b')\<close> and \<open>GF(8, 'a')\<close>.
\<close>

definition C16 :: linear_code where
  "C16 = \<lparr> base_field = FiniteField 2 4 ''aa'', length_code = 7, dimension = 3 \<rparr>"

definition GF4a :: field where
  "GF4a = FiniteField 2 2 ''a''"

definition GF4b :: field where
  "GF4b = FiniteField 2 2 ''b''"

definition GF8 :: field where
  "GF8 = FiniteField 2 3 ''a''"

definition Cs4a :: subfield_subcode where
  "Cs4a = \<lparr> base_field = GF4a, length_code = 7, original_code = C16 \<rparr>"

definition Cs4b :: subfield_subcode where
  "Cs4b = \<lparr> base_field = GF4b, length_code = 7, original_code = C16 \<rparr>"

section \<open>Auxiliary facts\<close>

subsection \<open>The summation loops and the term sequence of a generator\<close>

lemma sum_next_eq:
  "sum_next nxt n g acc = (acc + sum_list (first_terms nxt n g), state_after nxt n g)"
proof (induction n arbitrary: g acc)
  case 0
  show ?case by simp
next
  case (Suc n)
  show ?case
  proof (cases "nxt g")
    case None
    then show ?thesis by simp
  next
    case (Some zg)
    then show ?thesis by (simp add: Suc.IH add.assoc)
  qed
qed

lemma sum_all_produces:
  "produces nxt g ts g' \<Longrightarrow> sum_all nxt g acc = Some (acc + sum_list ts, g')"
proof (induction arbitrary: acc rule: produces.induct)
  case (stop g)
  then show ?case by (subst sum_all.simps) simp
next
  case (yield g z g' zs g'')
  show ?case
    by (subst sum_all.simps) (simp add: yield.hyps(1) yield.IH add.assoc)
qed

lemma sum_all_never_stops:
  assumes "\<And>g. nxt g \<noteq> None"
  shows "sum_all nxt g acc = None"
proof (cases "sum_all nxt g acc")
  case None
  then show ?thesis .
next
  case (Some r)
  have "False"
  proof (rule sum_all.raw_induct [where P = "\<lambda>n _ _ _. n \<noteq> nxt", OF _ Some, THEN notE])
    fix f n g a y
    assume IH: "\<And>n g a y. f n g a = Some y \<Longrightarrow> n \<noteq> nxt"
      and B: "(case n g of None \<Rightarrow> Some (a, g) | Some zg \<Rightarrow> f n (snd zg) (a + fst zg)) = Some y"
    show "n \<noteq> nxt"
    proof
      assume "n = nxt"
      with assms [of g] B obtain zg where "f nxt (snd zg) (a + fst zg) = Some y"
        by (auto split: option.splits)
      with IH show False by blast
    qed
  qed simp
  then show ?thesis ..
qed

lemma first_terms_produces:
  "produces nxt g ts g' \<Longrightarrow> first_terms nxt n g = take n ts"
proof (induction arbitrary: n rule: produces.induct)
  case (stop g)
  then show ?case by (cases n) simp_all
next
  case (yield g z g' zs g'')
  then show ?case by (cases n) simp_all
qed

lemma length_first_terms: "length (first_terms nxt n g) \<le> n"
  by (induction n arbitrary: g) (auto split: option.splits)

lemma sum_list_all_zero:
  "(\<forall>x \<in> set xs. x = 0) \<Longrightarrow> sum_list xs = (0::'a::monoid_add)"
  by (induction xs) auto

lemma drop_all_zero:
  fixes ts :: "'a::monoid_add list"
  assumes d0: "1 \<le> d 0" and dS: "\<forall>i. d i < d (Suc i)"
    and z: "\<forall>i<length ts. s < d i \<longrightarrow> ts ! i = 0" and n: "s \<le> n"
  shows "sum_list (drop n ts) = 0"
proof -
  have deep: "i < d i" for i
  proof (induction i)
    case 0
    from d0 show ?case by simp
  next
    case (Suc i)
    from dS have "d i < d (Suc i)" by blast
    with Suc show ?case by simp
  qed
  have "x = 0" if "x \<in> set (drop n ts)" for x
  proof -
    from that obtain j where j: "j < length (drop n ts)" and x: "x = drop n ts ! j"
      by (auto simp: in_set_conv_nth)
    from j have lt: "n + j < length ts" by simp
    from deep [of "n + j"] n have "s < d (n + j)" by simp
    with z lt have "ts ! (n + j) = 0" by blast
    with x lt show ?thesis by simp
  qed
  then show ?thesis by (simp add: sum_list_all_zero)
qed

subsection \<open>The logarithm of a power\<close>

lemma exact_log_power: "2 \<le> b \<Longrightarrow> exact_log b (b ^ k) = Some k"
proof (induction k)
  case 0
  then show ?case by (subst exact_log.simps) simp
next
  case (Suc k)
  from Suc.prems have "b ^ Suc k \<noteq> 0" "b ^ Suc k \<noteq> 1" "b ^ Suc k mod b = 0" "b ^ Suc k div b = b ^ k"
    by auto
  with Suc show ?case by (subst exact_log.simps) simp
qed

lemma exact_log_2_4: "exact_log 2 4 = Some 2"
  using exact_log_power [of 2 2] by simp

lemma exact_log_2_8: "exact_log 2 8 = Some 3"
  using exact_log_power [of 2 3] by simp

lemma exact_log_2_16: "exact_log 2 16 = Some 4"
  using exact_log_power [of 2 4] by simp

subsection \<open>The example objects\<close>

lemma produces_list_next: "produces list_next ts ts []"
  by (induction ts) (auto intro: produces.intros)

lemma heis_terms:
  "bch_iterator heis_bch (1, 0, 0) (0, 1, 0) = [(1, 1, 0), (0, 0, 1 / 2), (0, 0, 0)]"
  by (simp add: heis_bch_def heis_bracket_def scale3_def zero_prod_def)

lemma heis_produces:
  "produces (gen_next heis_bch) (bch_iterator heis_bch (1, 0, 0) (0, 1, 0))
     [(1, 1, 0), (0, 0, 1 / 2), (0, 0, 0)] []"
proof -
  have "gen_next heis_bch = list_next" by (simp add: heis_bch_def)
  then show ?thesis by (simp add: heis_terms produces_list_next)
qed

lemma heis_additive:
  "heis_bracket a (b + c) = heis_bracket a b + heis_bracket a c"
  "heis_bracket (a + b) c = heis_bracket a c + heis_bracket b c"
  by (cases a, cases b, cases c, simp add: heis_bracket_def algebra_simps)+

lemma init_C16_GF4a: "SubfieldSubcode_init (Code C16) GF4a = Inr Cs4a"
  by (simp add: SubfieldSubcode_init_def C16_def GF4a_def Cs4a_def exact_log_2_4 exact_log_2_16)

lemma init_C16_GF4b: "SubfieldSubcode_init (Code C16) GF4b = Inr Cs4b"
  by (simp add: SubfieldSubcode_init_def C16_def GF4b_def Cs4b_def exact_log_2_4 exact_log_2_16)

section \<open>Properties of \<open>bch\<close>\<close>

text \<open>
  C1.  For a parent in the \<open>Nilpotent\<close> category and \<open>prec\<close> omitted, \<open>bch\<close> returns the
  sum of the entire term sequence \<open>ts\<close> of the generator, whenever that sequence is
  finite.  With an integer \<open>prec\<close>, for any parent, it returns the sum of the first \<open>prec\<close>
  terms of the generator (none for \<open>prec \<le> 0\<close>, all of them when the generator stops
  earlier), and it leaves the generator where taking exactly these terms has left it:
  no further term is consumed.
\<close>

theorem bch_sums_terms:
  fixes L :: "('a::monoid_add, 'x, 'm) lie_algebra_scheme"
  shows
  "(in_Nilpotent L \<and> produces (gen_next B) (bch_iterator B X Y) ts g' \<longrightarrow>
      bch_run L B X Y None = Some (Inr (sum_list ts, g')))
   \<and> bch_run L B X Y (Some p) =
       Some (Inr (sum_list (first_terms (gen_next B) (nat p) (bch_iterator B X Y)),
                  state_after (gen_next B) (nat p) (bch_iterator B X Y)))
   \<and> length (first_terms (gen_next B) (nat p) (bch_iterator B X Y)) \<le> nat p
   \<and> (produces (gen_next B) (bch_iterator B X Y) ts g' \<longrightarrow>
      first_terms (gen_next B) (nat p) (bch_iterator B X Y) = take (nat p) ts)"
proof -
  have "bch_run L B X Y None = Some (Inr (sum_list ts, g'))"
    if "in_Nilpotent L" and "produces (gen_next B) (bch_iterator B X Y) ts g'"
    using that by (simp add: bch_run_def sum_all_produces)
  moreover have "bch_run L B X Y (Some p) =
       Some (Inr (sum_list (first_terms (gen_next B) (nat p) (bch_iterator B X Y)),
                  state_after (gen_next B) (nat p) (bch_iterator B X Y)))"
    by (simp add: bch_run_def sum_next_eq)
  ultimately show ?thesis
    by (simp add: length_first_terms first_terms_produces)
qed

theorem bch_sums_terms_witness:
  "in_Nilpotent Heisenberg
   \<and> produces (gen_next heis_bch) (bch_iterator heis_bch (1, 0, 0) (0, 1, 0))
       [(1, 1, 0), (0, 0, 1 / 2), (0, 0, 0)] []
   \<and> bch_run Heisenberg heis_bch (1, 0, 0) (0, 1, 0) None = Some (Inr ((1, 1, 1 / 2), []))
   \<and> bch_run Heisenberg heis_bch (1, 0, 0) (0, 1, 0) (Some 2) =
       Some (Inr ((1, 1, 1 / 2), [(0, 0, 0)]))
   \<and> bch_run Affine counting_bch (1, 0) (0, 1) (Some 3) = Some (Inr ((0, 3), 3))"
proof -
  have nil: "in_Nilpotent Heisenberg"
    by (simp add: in_Nilpotent_def Heisenberg_def)
  have nx: "gen_next heis_bch = list_next"
    by (simp add: heis_bch_def)
  note pr = heis_produces
  note h = bch_sums_terms [of Heisenberg heis_bch "(1, 0, 0)" "(0, 1, 0)"
      "[(1, 1, 0), (0, 0, 1 / 2), (0, 0, 0)]" "[]" 2]
  from h nil pr
  have a: "bch_run Heisenberg heis_bch (1, 0, 0) (0, 1, 0) None = Some (Inr ((1, 1, 1 / 2), []))"
    by simp
  from h have b: "bch_run Heisenberg heis_bch (1, 0, 0) (0, 1, 0) (Some 2) =
      Some (Inr ((1, 1, 1 / 2), [(0, 0, 0)]))"
    by (simp add: nx heis_terms eval_nat_numeral)
  from bch_sums_terms [of Affine counting_bch "(1, 0)" "(0, 1)" "[]" 0 3]
  have c: "bch_run Affine counting_bch (1, 0) (0, 1) (Some 3) = Some (Inr ((0, 3), 3))"
    by (simp add: counting_bch_def eval_nat_numeral zero_prod_def)
  from nil pr a b c show ?thesis by simp
qed

text \<open>
  On a generator that never stops, \<open>bch\<close> without \<open>prec\<close> does not return, also for a
  parent in the \<open>Nilpotent\<close> category: the finiteness of the sequence is the generator's.
\<close>

lemma bch_run_never_returns:
  fixes L :: "('a::monoid_add, 'x, 'm) lie_algebra_scheme"
  assumes "in_Nilpotent L" and "\<And>g. gen_next B g \<noteq> None"
  shows "bch_run L B X Y None = None"
  using assms by (simp add: bch_run_def sum_all_never_stops)

text \<open>
  C2.  With \<open>prec\<close> omitted, a parent that is not in the \<open>Nilpotent\<close> category gets the
  precision-required \<open>ValueError\<close>, whatever the generator would do (it is not run); a
  parent in the \<open>Nilpotent\<close> category never gets an error from \<open>bch\<close>.
\<close>

theorem bch_precision_required:
  fixes L :: "('a::monoid_add, 'x, 'm) lie_algebra_scheme"
  shows
  "(\<not> in_Nilpotent L \<longrightarrow>
      bch L B X Y None = Some (Inl (ValueError
        ''the Lie algebra is not known to be nilpotent, so you must specify the precision'')))
   \<and> (in_Nilpotent L \<longrightarrow> (\<forall>e. bch L B X Y None \<noteq> Some (Inl e)))"
  by (auto simp: bch_def bch_run_def)

theorem bch_precision_required_witness:
  "\<not> in_Nilpotent Affine
   \<and> bch Affine counting_bch (1, 0) (0, 1) None =
       Some (Inl (ValueError
         ''the Lie algebra is not known to be nilpotent, so you must specify the precision''))
   \<and> in_Nilpotent Heisenberg
   \<and> (\<forall>e. bch Heisenberg heis_bch (1, 0, 0) (0, 1, 0) None \<noteq> Some (Inl e))"
proof -
  have a: "\<not> in_Nilpotent Affine"
    by (simp add: in_Nilpotent_def Affine_def)
  have h: "in_Nilpotent Heisenberg"
    by (simp add: in_Nilpotent_def Heisenberg_def)
  from a h bch_precision_required [of Affine counting_bch "(1, 0)" "(0, 1)"]
    bch_precision_required [of Heisenberg heis_bch "(1, 0, 0)" "(0, 1, 0)"]
  show ?thesis by simp
qed

text \<open>
  C3.  Let the parent be nilpotent of step \<open>s\<close>, let the generator produce the finite
  sequence \<open>ts\<close>, and let \<open>d i\<close> be the bracket-nesting depth of its \<open>i\<close>-th term (counted
  from 0), with depths starting at 1 or more and strictly increasing, as the spec orders
  the terms.  If every term of depth greater than \<open>s\<close> is zero, then \<open>bch\<close> with any
  \<open>prec \<ge> s\<close> returns the element that \<open>bch\<close> without \<open>prec\<close> returns, the sum of \<open>ts\<close>.
\<close>

theorem bch_prec_at_least_step:
  fixes L :: "('a::monoid_add, 'x, 'm) lie_algebra_scheme"
  assumes "nilpotent_step L = Some s"
    and "produces (gen_next B) (bch_iterator B X Y) ts g'"
    and "1 \<le> d 0" and "\<forall>i. d i < d (Suc i)"
    and "\<forall>i<length ts. s < d i \<longrightarrow> ts ! i = 0"
    and "int s \<le> p"
  shows "bch L B X Y (Some p) = bch L B X Y None
         \<and> bch L B X Y None = Some (Inr (sum_list ts))"
proof -
  from assms(6) have n: "s \<le> nat p" by simp
  have "sum_list ts = sum_list (take (nat p) ts) + sum_list (drop (nat p) ts)"
    by (simp flip: sum_list_append)
  also have "\<dots> = sum_list (take (nat p) ts)"
    by (simp add: drop_all_zero [OF assms(3) assms(4) assms(5) n])
  finally have eq: "sum_list (take (nat p) ts) = sum_list ts" by simp
  from assms(1) have nil: "in_Nilpotent L" by (simp add: in_Nilpotent_def)
  have a: "bch L B X Y None = Some (Inr (sum_list ts))"
    using nil assms(2) by (simp add: bch_def bch_run_def sum_all_produces)
  have b: "bch L B X Y (Some p) = Some (Inr (sum_list (take (nat p) ts)))"
    using assms(2) by (simp add: bch_def bch_run_def sum_next_eq first_terms_produces)
  from a b eq show ?thesis by simp
qed

theorem bch_prec_at_least_step_witness:
  "nilpotent_step Heisenberg = Some 2
   \<and> bch Heisenberg heis_bch (1, 0, 0) (0, 1, 0) (Some 5) =
       bch Heisenberg heis_bch (1, 0, 0) (0, 1, 0) None
   \<and> bch Heisenberg heis_bch (1, 0, 0) (0, 1, 0) None = Some (Inr (1, 1, 1 / 2))"
proof -
  have st: "nilpotent_step Heisenberg = Some 2"
    by (simp add: Heisenberg_def)
  note pr = heis_produces
  have d0: "1 \<le> Suc 0" by simp
  have dS: "\<forall>i. Suc i < Suc (Suc i)" by simp
  have z: "\<forall>i<length [(1, 1, 0), (0, 0, 1 / 2), (0, 0, 0::rat)]. 2 < Suc i \<longrightarrow>
      [(1, 1, 0), (0, 0, 1 / 2), (0, 0, 0)] ! i = (0::rat \<times> rat \<times> rat)"
    by (simp add: less_Suc_eq zero_prod_def)
  have p: "int 2 \<le> 5" by simp
  from bch_prec_at_least_step [OF st pr d0 dS z p] st show ?thesis by simp
qed

section \<open>Properties of \<open>bracket\<close>\<close>

text \<open>
  C4.  \<open>bracket\<close> has exactly three cases.  Two Lie-algebra-like operands: the result of
  \<open>lhs.product_space(rhs)\<close>.  Exactly one Lie-algebra-like operand: the result of that
  operand's \<open>ideal\<close> method on the other, plain operand.  Two plain operands: both are
  coerced into \<open>self\<close>, the left one first, and the result is their element bracket.
\<close>

theorem bracket_dispatch:
  "bracket L M (LieAlgebraLike l) (LieAlgebraLike r) = map_sum id Subspace (product_space M l r)
   \<and> bracket L M (LieAlgebraLike l) (Plain y) = map_sum id Subspace (ideal M l y)
   \<and> bracket L M (Plain x) (LieAlgebraLike r) = map_sum id Subspace (ideal M r x)
   \<and> bracket L M (Plain x) (Plain y) =
       (case element_constructor L x of
          Inl e \<Rightarrow> Inl e
        | Inr a \<Rightarrow>
            (case element_constructor L y of
               Inl e \<Rightarrow> Inl e
             | Inr b \<Rightarrow> Inr (Element (element_bracket L a b))))"
  by (simp add: bracket_def)

text \<open>
  With the \<open>ideal\<close> this category supplies, the second case raises.
\<close>

lemma bracket_with_category_ideal:
  "bracket L (category_methods :: (unit, 'x, unit) parent_methods) (LieAlgebraLike l) (Plain y) =
     Inl (NotImplementedError ''ideals not yet implemented: see #16824'')"
  by (simp add: bracket_def category_methods_def ideal_default_def)

text \<open>
  C5.  Let the element bracket be additive in each argument.  For plain operands \<open>x'\<close>
  and \<open>z\<close> that the element constructor maps to an element \<open>x\<close> and to the zero element
  (as it does the integer 0, and the zero element itself), \<open>bracket(x', z)\<close> and
  \<open>bracket(z, x')\<close> are the zero element.
\<close>

theorem bracket_zero:
  fixes L :: "('a::ab_group_add, 'x, 'm) lie_algebra_scheme"
  assumes "\<forall>a b c. element_bracket L a (b + c) = element_bracket L a b + element_bracket L a c"
    and "\<forall>a b c. element_bracket L (a + b) c = element_bracket L a c + element_bracket L b c"
    and "element_constructor L x' = Inr x"
    and "element_constructor L z = Inr 0"
  shows "bracket L M (Plain x') (Plain z) = Inr (Element 0)
         \<and> bracket L M (Plain z) (Plain x') = Inr (Element 0)"
proof -
  from assms(1) have "element_bracket L x (0 + 0) = element_bracket L x 0 + element_bracket L x 0"
    by blast
  then have r: "element_bracket L x 0 = 0" by simp
  from assms(2) have "element_bracket L (0 + 0) x = element_bracket L 0 x + element_bracket L 0 x"
    by blast
  then have l: "element_bracket L 0 x = 0" by simp
  from r l assms(3) assms(4) show ?thesis by (simp add: bracket_def)
qed

theorem bracket_zero_witness:
  "(bracket Heisenberg (category_methods :: (unit, (rat \<times> rat \<times> rat) plain, unit) parent_methods)
      (Plain (Elt (1, 0, 0))) (Plain (PyInt 0)) = Inr (Element 0)
    \<and> bracket Heisenberg (category_methods :: (unit, (rat \<times> rat \<times> rat) plain, unit) parent_methods)
      (Plain (PyInt 0)) (Plain (Elt (1, 0, 0))) = Inr (Element 0))
   \<and> (bracket Heisenberg (category_methods :: (unit, (rat \<times> rat \<times> rat) plain, unit) parent_methods)
      (Plain (Elt (1, 0, 0))) (Plain (Elt 0)) = Inr (Element 0)
    \<and> bracket Heisenberg (category_methods :: (unit, (rat \<times> rat \<times> rat) plain, unit) parent_methods)
      (Plain (Elt 0)) (Plain (Elt (1, 0, 0))) = Inr (Element 0))"
proof -
  have r: "\<forall>a b c. element_bracket Heisenberg a (b + c) =
      element_bracket Heisenberg a b + element_bracket Heisenberg a c"
    by (simp add: Heisenberg_def heis_additive)
  have l: "\<forall>a b c. element_bracket Heisenberg (a + b) c =
      element_bracket Heisenberg a c + element_bracket Heisenberg b c"
    by (simp add: Heisenberg_def heis_additive)
  have e: "element_constructor Heisenberg (Elt (1, 0, 0)) = Inr (1, 0, 0)"
    by (simp add: Heisenberg_def)
  have z: "element_constructor Heisenberg (PyInt 0) = Inr 0"
    by (simp add: Heisenberg_def)
  have z': "element_constructor Heisenberg (Elt 0) = Inr 0"
    by (simp add: Heisenberg_def)
  show ?thesis
    by (rule conjI) (rule bracket_zero [OF r l e z], rule bracket_zero [OF r l e z'])
qed

section \<open>Properties of \<open>is_abelian\<close> and \<open>is_commutative\<close>\<close>

text \<open>
  C6.  When the generating family is finite and enumerable, \<open>is_abelian\<close> returns true
  exactly when \<open>x._bracket_(y)\<close> is zero for every ordered pair of generators; when the
  family is not known to be finite it raises \<open>NotImplementedError\<close> with the message
  "infinite number of generators" and returns no answer.
\<close>

theorem is_abelian_spec:
  "(lie_algebra_generators L = FiniteEnumerated G \<longrightarrow>
      (\<exists>b. is_abelian L = Inr b \<and>
           (b \<longleftrightarrow> (\<forall>x \<in> set G. \<forall>y \<in> set G. element_bracket L x y = 0))))
   \<and> (lie_algebra_generators L = OtherFamily \<longrightarrow>
      is_abelian L = Inl (NotImplementedError ''infinite number of generators''))"
  by (simp add: is_abelian_def list_all_iff)

theorem is_abelian_spec_witness:
  "is_abelian Heisenberg = Inr False
   \<and> is_abelian Abelian2 = Inr True
   \<and> is_abelian Affine = Inl (NotImplementedError ''infinite number of generators'')"
proof -
  have g: "lie_algebra_generators Heisenberg = FiniteEnumerated [(1, 0, 0), (0, 1, 0)]"
    by (simp add: Heisenberg_def)
  have nz: "element_bracket Heisenberg (1, 0, 0) (0, 1, 0) \<noteq> 0"
    by (simp add: Heisenberg_def heis_bracket_def zero_prod_def)
  from is_abelian_spec [of Heisenberg "[(1, 0, 0), (0, 1, 0)]"] g
  obtain b where b: "is_abelian Heisenberg = Inr b"
    and iff: "b \<longleftrightarrow> (\<forall>x \<in> set [(1, 0, 0), (0, 1, 0)].
                 \<forall>y \<in> set [(1, 0, 0), (0, 1, 0)]. element_bracket Heisenberg x y = 0)"
    by blast
  from iff nz have "\<not> b" by simp
  with b have h: "is_abelian Heisenberg = Inr False" by simp
  have a: "is_abelian Abelian2 = Inr True"
    by (simp add: is_abelian_def Abelian2_def)
  have o: "lie_algebra_generators Affine = OtherFamily"
    by (simp add: Affine_def)
  from is_abelian_spec [of Affine] o
  have "is_abelian Affine = Inl (NotImplementedError ''infinite number of generators'')"
    by blast
  with h a show ?thesis by simp
qed

text \<open>
  C10.  \<open>is_commutative\<close> returns exactly what \<open>is_abelian\<close> returns: the same boolean,
  or the same "infinite number of generators" error.
\<close>

theorem is_commutative_is_abelian:
  "is_commutative L = is_abelian L"
  by (simp add: is_commutative_def)

section \<open>Properties of subfield subcodes\<close>

text \<open>
  C7.  Write the order of a finite subfield as \<open>p ^ s\<close>, with \<open>p\<close> its characteristic, and
  the order of the base field of the original code as \<open>p ^ sm\<close>.  The constructor raises a
  \<open>ValueError\<close> exactly when the original is no linear code, or the subfield is not
  finite, or \<open>s\<close> does not divide \<open>sm\<close>; it returns an object exactly when none of these
  holds, and that object holds the subfield, the length of the original code and the
  original code.
\<close>

theorem SubfieldSubcode_init_validation:
  assumes "2 \<le> p"
    and "\<forall>C. original = Code C \<longrightarrow> order (base_field C) = p ^ sm"
    and "is_finite subfield \<longrightarrow> characteristic subfield = p \<and> order subfield = p ^ s"
  shows "((\<exists>msg. SubfieldSubcode_init original subfield = Inl (ValueError msg)) \<longleftrightarrow>
            (original = NotACode \<or> \<not> is_finite subfield \<or> \<not> s dvd sm))
         \<and> ((\<exists>Cs. SubfieldSubcode_init original subfield = Inr Cs) \<longleftrightarrow>
            \<not> (original = NotACode \<or> \<not> is_finite subfield \<or> \<not> s dvd sm))
         \<and> (\<forall>C. original = Code C \<and> is_finite subfield \<and> s dvd sm \<longrightarrow>
              SubfieldSubcode_init original subfield =
                Inr \<lparr> base_field = subfield, length_code = length_code C, original_code = C \<rparr>)"
proof (cases original)
  case NotACode
  then show ?thesis by (simp add: SubfieldSubcode_init_def)
next
  case (Code C)
  show ?thesis
  proof (cases "is_finite subfield")
    case False
    with Code show ?thesis by (simp add: SubfieldSubcode_init_def)
  next
    case True
    with assms(3) have c: "characteristic subfield = p" and o: "order subfield = p ^ s"
      by simp_all
    from assms(2) Code have oc: "order (base_field C) = p ^ sm" by simp
    from Code True c o oc show ?thesis
      by (simp add: SubfieldSubcode_init_def exact_log_power [OF assms(1)])
  qed
qed

theorem SubfieldSubcode_init_validation_witness:
  "(\<exists>msg. SubfieldSubcode_init (Code C16) GF8 = Inl (ValueError msg))
   \<and> (\<forall>Cs. SubfieldSubcode_init (Code C16) GF8 \<noteq> Inr Cs)
   \<and> SubfieldSubcode_init (Code C16) GF4a = Inr Cs4a
   \<and> (\<exists>msg. SubfieldSubcode_init NotACode GF4a = Inl (ValueError msg))
   \<and> (\<exists>msg. SubfieldSubcode_init (Code C16) InfiniteField = Inl (ValueError msg))"
proof -
  have p: "(2::nat) \<le> 2" by simp
  have c: "\<forall>C. Code C16 = Code C \<longrightarrow> order (base_field C) = 2 ^ 4"
    by (simp add: C16_def)
  have n: "\<forall>C. NotACode = Code C \<longrightarrow> order (base_field C) = 2 ^ 4"
    by simp
  have f8: "is_finite GF8 \<longrightarrow> characteristic GF8 = 2 \<and> order GF8 = 2 ^ 3"
    by (simp add: GF8_def)
  have f4: "is_finite GF4a \<longrightarrow> characteristic GF4a = 2 \<and> order GF4a = 2 ^ 2"
    by (simp add: GF4a_def)
  have fi: "is_finite InfiniteField \<longrightarrow>
      characteristic InfiniteField = 2 \<and> order InfiniteField = 2 ^ 2"
    by simp
  have nd: "\<not> (3::nat) dvd 4" by presburger
  have dv: "(2::nat) dvd 4" by simp
  have fin4: "is_finite GF4a" by (simp add: GF4a_def)
  have fin8: "is_finite GF8" by (simp add: GF8_def)
  from SubfieldSubcode_init_validation [OF p c f8] nd
  have a: "(\<exists>msg. SubfieldSubcode_init (Code C16) GF8 = Inl (ValueError msg))
      \<and> (\<forall>Cs. SubfieldSubcode_init (Code C16) GF8 \<noteq> Inr Cs)"
    by simp
  from SubfieldSubcode_init_validation [OF p c f4] dv fin4
  have b: "SubfieldSubcode_init (Code C16) GF4a = Inr Cs4a"
    by (simp add: Cs4a_def C16_def)
  from SubfieldSubcode_init_validation [OF p n f4]
  have d: "\<exists>msg. SubfieldSubcode_init NotACode GF4a = Inl (ValueError msg)"
    by simp
  from SubfieldSubcode_init_validation [OF p c fi]
  have e: "\<exists>msg. SubfieldSubcode_init (Code C16) InfiniteField = Inl (ValueError msg)"
    by simp
  from a b d e show ?thesis by simp
qed

text \<open>
  C8.  For a subcode constructed from a code \<open>C\<close> over \<open>GF(p ^ sm)\<close> and the subfield
  \<open>GF(p ^ s)\<close>: \<open>dimension_upper_bound\<close> is the dimension of \<open>C\<close>, and
  \<open>dimension_lower_bound\<close> is \<open>n - t * (n - k)\<close> in the integers, not clamped, where \<open>n\<close>
  and \<open>k\<close> are the length and dimension of \<open>C\<close> and \<open>t\<close> is the logarithm to base \<open>p\<close> of the
  quotient of the two orders.
\<close>

theorem dimension_bounds:
  assumes "SubfieldSubcode_init (Code C) F = Inr Cs"
    and "2 \<le> p" and "0 < sm"
    and "base_field C = FiniteField p sm v"
    and "F = FiniteField p s w"
  shows "dimension_upper_bound Cs = dimension C
         \<and> dimension_upper_bound Cs \<le> dimension C
         \<and> (\<exists>t. order (base_field C) = p ^ t * order F
                \<and> dimension_lower_bound Cs =
                    Some (int (length_code C) - int t * (int (length_code C) - int (dimension C))))"
proof -
  from assms(1) assms(4) assms(5)
  have dv: "s dvd sm"
    and Cs: "Cs = \<lparr> base_field = F, length_code = length_code C, original_code = C \<rparr>"
    by (auto simp: SubfieldSubcode_init_def exact_log_power [OF assms(2)]
        split: if_splits)
  from dv assms(3) have le: "s \<le> sm" by (simp add: dvd_imp_le)
  then have pw: "p ^ sm = p ^ (sm - s) * p ^ s" by (simp flip: power_add)
  from assms(2) have "p ^ s \<noteq> 0" by simp
  with pw have dq: "p ^ sm div p ^ s = p ^ (sm - s)" by simp
  have lb: "dimension_lower_bound Cs =
      Some (int (length_code C) - int (sm - s) * (int (length_code C) - int (dimension C)))"
    by (simp add: dimension_lower_bound_def Let_def Cs assms(4) assms(5) dq
        exact_log_power [OF assms(2)])
  have "order (base_field C) = p ^ (sm - s) * order F"
    using pw by (simp add: assms(4) assms(5))
  with lb show ?thesis by (auto simp: dimension_upper_bound_def Cs)
qed

theorem dimension_bounds_witness:
  "SubfieldSubcode_init (Code C16) GF4a = Inr Cs4a
   \<and> dimension_upper_bound Cs4a = 3
   \<and> dimension_lower_bound Cs4a = Some (- 1)"
proof -
  have p: "(2::nat) \<le> 2" by simp
  have m: "(0::nat) < 4" by simp
  have bf: "base_field C16 = FiniteField 2 4 ''aa''" by (simp add: C16_def)
  have f: "GF4a = FiniteField 2 2 ''a''" by (simp add: GF4a_def)
  from dimension_bounds [OF init_C16_GF4a p m bf f]
  obtain t where ub: "dimension_upper_bound Cs4a = dimension C16"
    and t: "order (base_field C16) = 2 ^ t * order GF4a"
    and lb: "dimension_lower_bound Cs4a =
        Some (int (length_code C16) - int t * (int (length_code C16) - int (dimension C16)))"
    by blast
  from t have "(2::nat) ^ t = 2 ^ 2" by (simp add: C16_def GF4a_def)
  then have "t = 2" using power_inject_exp [of "2::nat" t 2] by simp
  with ub lb init_C16_GF4a show ?thesis by (simp add: C16_def)
qed

text \<open>
  C9.  Two subfield subcodes are equal exactly when their original codes are equal, by
  the equality of these codes, and their base fields have the same order.  So two
  subcodes constructed from one original code (equal to itself) and two subfields of
  equal order are equal, also when the subfields differ.
\<close>

theorem eq_subcode_iff:
  "(eq_subcode code_eq A (Subcode B) \<longleftrightarrow>
      code_eq (original_code A) (original_code B)
      \<and> order (base_field A) = order (base_field B))
   \<and> (SubfieldSubcode_init (Code C) F1 = Inr A \<and> SubfieldSubcode_init (Code C) F2 = Inr B
        \<and> order F1 = order F2 \<and> code_eq C C \<longrightarrow>
      eq_subcode code_eq A (Subcode B))"
  by (auto simp: eq_subcode_def SubfieldSubcode_init_def Let_def
      split: if_splits option.splits)

theorem eq_subcode_iff_witness:
  "GF4a \<noteq> GF4b
   \<and> SubfieldSubcode_init (Code C16) GF4a = Inr Cs4a
   \<and> SubfieldSubcode_init (Code C16) GF4b = Inr Cs4b
   \<and> order GF4a = order GF4b
   \<and> eq_subcode (=) Cs4a (Subcode Cs4b)"
proof -
  have ne: "GF4a \<noteq> GF4b" by (simp add: GF4a_def GF4b_def)
  have oe: "order GF4a = order GF4b" by (simp add: GF4a_def GF4b_def)
  from eq_subcode_iff [of "(=)" Cs4a Cs4b C16 GF4a GF4b, THEN conjunct2]
    init_C16_GF4a init_C16_GF4b oe
  have "eq_subcode (=) Cs4a (Subcode Cs4b)" by blast
  with ne oe init_C16_GF4a init_C16_GF4b show ?thesis by simp
qed

end
